theory Spec2Isabelle
  imports Main
begin

section \<open>Values, strings and thrown errors\<close>

text \<open>
  The registry stores operators for values of any kind, so the built-in operators work on
  one universe of JavaScript values. A \<open>number\<close> is modelled by an integer: on the safe
  integers the arithmetic of \<open>NumberMutator\<close> is exact (fractions, \<open>NaN\<close> and the infinities
  are left out). Strings are lists of characters; the case conversions act on the ASCII
  letters.
\<close>

datatype jsval =
    JUndefined
  | JNull
  | JBool bool
  | JNumber int
  | JBigInt int
  | JString string
  | JArray "jsval list"

text \<open>
  Anything can be thrown. \<open>Error msg\<close> is \<open>new Error(msg)\<close> (or any other truthy value),
  \<open>OperatorNotApplicable n v\<close> is the error built in \<open>testWithOperator\<close> from the
  operator's name and the seed, and \<open>FalsyValue\<close> stands for a thrown \<open>undefined\<close>,
  \<open>null\<close>, \<open>0\<close> or empty string, which the test \<open>r.error\<close> of the summary does not count.
\<close>

datatype 'a thrown =
    Error string
  | OperatorNotApplicable string 'a
  | FalsyValue

fun truthy :: "'a thrown \<Rightarrow> bool" where
  "truthy (Error msg) = True"
| "truthy (OperatorNotApplicable n v) = True"
| "truthy FalsyValue = False"

text \<open>
  \<open>s.substring(start, end)\<close>: both indices are clamped to the string and swapped when out
  of order.
\<close>

definition substring :: "string \<Rightarrow> int \<Rightarrow> int \<Rightarrow> string" where
  "substring s start end =
     (let n = int (length s);
          a = max 0 (min start n);
          b = max 0 (min end n);
          lo = min a b;
          hi = max a b
      in take (nat (hi - lo)) (drop (nat lo) s))"

text \<open>\<open>s.substring(start)\<close>: the end defaults to the length.\<close>

definition substring_from :: "string \<Rightarrow> int \<Rightarrow> string" where
  "substring_from s start = substring s start (int (length s))"

definition upper_letters :: string where
  "upper_letters = ''ABCDEFGHIJKLMNOPQRSTUVWXYZ''"

definition lower_letters :: string where
  "lower_letters = ''abcdefghijklmnopqrstuvwxyz''"

definition toLowerCase :: "string \<Rightarrow> string" where
  "toLowerCase s =
     map (\<lambda>c. case map_of (zip upper_letters lower_letters) c of
                Some l \<Rightarrow> l
              | None \<Rightarrow> c) s"

definition toUpperCase :: "string \<Rightarrow> string" where
  "toUpperCase s =
     map (\<lambda>c. case map_of (zip lower_letters upper_letters) c of
                Some u \<Rightarrow> u
              | None \<Rightarrow> c) s"

section \<open>Type descriptors\<close>

text \<open>
  \<open>BaseType\<close>: the name is the registry key and \<open>isValid\<close> the membership test. The
  fields \<open>mutable\<close> and \<open>unrollValue\<close> are not used by the mutation subsystem.
\<close>

record 'a base_type =
  name :: string
  isValid :: "'a \<Rightarrow> bool"

text \<open>
  The predicates \<open>isAddress\<close> and \<open>isHex\<close> come from the external library; the
  primitive types take them as a parameter.
\<close>

record viem =
  isAddress :: "string \<Rightarrow> bool"
  isHex :: "string \<Rightarrow> bool"

definition TAddress :: "viem \<Rightarrow> jsval base_type" where
  "TAddress lib =
     \<lparr>name = ''Address'',
      isValid = (\<lambda>v. case v of JString s \<Rightarrow> isAddress lib s | _ \<Rightarrow> False)\<rparr>"

definition THex32 :: "viem \<Rightarrow> jsval base_type" where
  "THex32 lib =
     \<lparr>name = ''Hex32'',
      isValid = (\<lambda>v. case v of JString s \<Rightarrow> isHex lib s \<and> length s = 66 | _ \<Rightarrow> False)\<rparr>"

definition allTags :: "string list" where
  "allTags = [''latest'', ''earliest'', ''pending'', ''safe'', ''finalized'']"

definition TBlockTag :: "jsval base_type" where
  "TBlockTag =
     \<lparr>name = ''BlockTag'',
      isValid = (\<lambda>v. case v of JString s \<Rightarrow> s \<in> set allTags | _ \<Rightarrow> False)\<rparr>"

definition TBlockNumber :: "jsval base_type" where
  "TBlockNumber =
     \<lparr>name = ''BlockNumber'',
      isValid = (\<lambda>v. case v of JBigInt n \<Rightarrow> 0 \<le> n | _ \<Rightarrow> False)\<rparr>"

text \<open>The descriptors written inline in the Boolean, Number, String and Array operators.\<close>

definition BooleanType :: "jsval base_type" where
  "BooleanType =
     \<lparr>name = ''Boolean'', isValid = (\<lambda>v. case v of JBool b \<Rightarrow> True | _ \<Rightarrow> False)\<rparr>"

definition NumberType :: "jsval base_type" where
  "NumberType =
     \<lparr>name = ''Number'', isValid = (\<lambda>v. case v of JNumber n \<Rightarrow> True | _ \<Rightarrow> False)\<rparr>"

definition StringType :: "jsval base_type" where
  "StringType =
     \<lparr>name = ''String'', isValid = (\<lambda>v. case v of JString s \<Rightarrow> True | _ \<Rightarrow> False)\<rparr>"

definition ArrayType :: "jsval base_type" where
  "ArrayType =
     \<lparr>name = ''Array'', isValid = (\<lambda>v. case v of JArray xs \<Rightarrow> True | _ \<Rightarrow> False)\<rparr>"

section \<open>Mutation operators\<close>

text \<open>
  \<open>TypedMutationOperator\<close>. \<open>mutate\<close> is code supplied with the operator and may throw,
  which \<open>Inl\<close> records. \<open>isApplicable\<close> is a type guard and is modelled by the predicate
  it computes: the properties below are about calls in which it returns \<open>true\<close> or
  \<open>false\<close>, and say nothing about a guard that throws.
\<close>

record 'a operator =
  operator_name :: string
  type :: "'a base_type"
  isApplicable :: "'a \<Rightarrow> bool"
  mutate :: "'a \<Rightarrow> 'a thrown + 'a list"

definition AddressMutator_mutate :: "string \<Rightarrow> string list" where
  "AddressMutator_mutate address =
     [toLowerCase address,
      substring address 0 41 @ ''0'',
      ''0X'' @ substring_from address 2,
      ''0x0000000000000000000000000000000000000000'',
      substring address 0 10 @ ''X'' @ substring_from address 11]"

definition BlockTagMutator_mutate :: "string \<Rightarrow> string list" where
  "BlockTagMutator_mutate blockTag = filter (\<lambda>tag. tag \<noteq> blockTag) allTags"

definition BlockNumberMutator_mutate :: "int \<Rightarrow> int list" where
  "BlockNumberMutator_mutate blockNumber =
     [0, 1, blockNumber + 1, blockNumber - 1, 2 ^ 64 - 1, - 1]"

definition HashMutator_mutate :: "string \<Rightarrow> string list" where
  "HashMutator_mutate hash =
     [substring hash 0 10 @ ''X'' @ substring_from hash 11,
      ''0X'' @ substring_from hash 2,
      ''0x0000000000000000000000000000000000000000000000000000000000000000'',
      substring hash 0 65,
      hash @ ''0'']"

definition BooleanMutator_mutate :: "bool \<Rightarrow> bool list" where
  "BooleanMutator_mutate v = [\<not> v]"

definition MAX_SAFE_INTEGER :: int where
  "MAX_SAFE_INTEGER = 2 ^ 53 - 1"

definition MIN_SAFE_INTEGER :: int where
  "MIN_SAFE_INTEGER = - (2 ^ 53 - 1)"

definition NumberMutator_mutate :: "int \<Rightarrow> int list" where
  "NumberMutator_mutate v =
     [0, v + 1, v - 1, - v, v * 2, v div 2, MAX_SAFE_INTEGER, MIN_SAFE_INTEGER]"

definition StringMutator_mutate :: "string \<Rightarrow> string list" where
  "StringMutator_mutate v =
     ['''',
      v @ ''X'',
      substring v 0 (int (length v) - 1),
      toUpperCase v,
      toLowerCase v,
      rev v]"

definition ArrayMutator_mutate :: "jsval list \<Rightarrow> jsval list list" where
  "ArrayMutator_mutate v =
     (if length v = 0 then [[JNull]]
      else [[],
            drop 1 v,
            take (length v - 1) v,
            v @ [v ! 0],
            rev v,
            [v ! 0]])"

text \<open>
  The operators as the registry holds them. \<open>isApplicable\<close> is inherited from
  \<open>BaseTypedMutationOperator\<close> and delegates to the bound type. A call of \<open>mutate\<close> on a
  value of another kind, which the guard in the registry and in \<open>testWithOperator\<close>
  excludes, is recorded as a thrown error.
\<close>

definition AddressMutator :: "viem \<Rightarrow> jsval operator" where
  "AddressMutator lib =
     \<lparr>operator_name = ''AddressMutator'',
      type = TAddress lib,
      isApplicable = isValid (TAddress lib),
      mutate = (\<lambda>v. case v of JString s \<Rightarrow> Inr (map JString (AddressMutator_mutate s))
                               | _ \<Rightarrow> Inl (Error ''TypeError''))\<rparr>"

definition BlockTagMutator :: "jsval operator" where
  "BlockTagMutator =
     \<lparr>operator_name = ''BlockTagMutator'',
      type = TBlockTag,
      isApplicable = isValid TBlockTag,
      mutate = (\<lambda>v. case v of JString s \<Rightarrow> Inr (map JString (BlockTagMutator_mutate s))
                               | _ \<Rightarrow> Inl (Error ''TypeError''))\<rparr>"

definition BlockNumberMutator :: "jsval operator" where
  "BlockNumberMutator =
     \<lparr>operator_name = ''BlockNumberMutator'',
      type = TBlockNumber,
      isApplicable = isValid TBlockNumber,
      mutate = (\<lambda>v. case v of JBigInt n \<Rightarrow> Inr (map JBigInt (BlockNumberMutator_mutate n))
                               | _ \<Rightarrow> Inl (Error ''TypeError''))\<rparr>"

definition HashMutator :: "viem \<Rightarrow> jsval operator" where
  "HashMutator lib =
     \<lparr>operator_name = ''HashMutator'',
      type = THex32 lib,
      isApplicable = isValid (THex32 lib),
      mutate = (\<lambda>v. case v of JString s \<Rightarrow> Inr (map JString (HashMutator_mutate s))
                               | _ \<Rightarrow> Inl (Error ''TypeError''))\<rparr>"

definition BooleanMutator :: "jsval operator" where
  "BooleanMutator =
     \<lparr>operator_name = ''BooleanMutator'',
      type = BooleanType,
      isApplicable = isValid BooleanType,
      mutate = (\<lambda>v. case v of JBool b \<Rightarrow> Inr (map JBool (BooleanMutator_mutate b))
                               | _ \<Rightarrow> Inl (Error ''TypeError''))\<rparr>"

definition NumberMutator :: "jsval operator" where
  "NumberMutator =
     \<lparr>operator_name = ''NumberMutator'',
      type = NumberType,
      isApplicable = isValid NumberType,
      mutate = (\<lambda>v. case v of JNumber n \<Rightarrow> Inr (map JNumber (NumberMutator_mutate n))
                               | _ \<Rightarrow> Inl (Error ''TypeError''))\<rparr>"

definition StringMutator :: "jsval operator" where
  "StringMutator =
     \<lparr>operator_name = ''StringMutator'',
      type = StringType,
      isApplicable = isValid StringType,
      mutate = (\<lambda>v. case v of JString s \<Rightarrow> Inr (map JString (StringMutator_mutate s))
                               | _ \<Rightarrow> Inl (Error ''TypeError''))\<rparr>"

definition ArrayMutator :: "jsval operator" where
  "ArrayMutator =
     \<lparr>operator_name = ''ArrayMutator'',
      type = ArrayType,
      isApplicable = isValid ArrayType,
      mutate = (\<lambda>v. case v of JArray xs \<Rightarrow> Inr (map JArray (ArrayMutator_mutate xs))
                               | _ \<Rightarrow> Inl (Error ''TypeError''))\<rparr>"

section \<open>Mutation registry\<close>

text \<open>The \<open>Map\<close> from type name to operator.\<close>

type_synonym 'a registry = "string \<rightharpoonup> 'a operator"

definition register :: "'a operator \<Rightarrow> 'a registry \<Rightarrow> 'a registry" where
  "register op operators = operators(name (type op) \<mapsto> op)"

definition getOperator :: "'a registry \<Rightarrow> 'a base_type \<Rightarrow> 'a operator option" where
  "getOperator operators ty = operators (name ty)"

definition registry_mutate :: "'a registry \<Rightarrow> 'a \<Rightarrow> 'a base_type \<Rightarrow> 'a thrown + 'a list" where
  "registry_mutate operators v ty =
     (case getOperator operators ty of
        Some op \<Rightarrow> if isApplicable op v then mutate op v else Inr [v]
      | None \<Rightarrow> Inr [v])"

definition registerDefaults :: "viem \<Rightarrow> jsval registry \<Rightarrow> jsval registry" where
  "registerDefaults lib operators =
     register ArrayMutator
       (register StringMutator
         (register NumberMutator
           (register BooleanMutator
             (register (HashMutator lib)
               (register BlockNumberMutator
                 (register BlockTagMutator
                   (register (AddressMutator lib) operators)))))))"

text \<open>The constructor \<open>new MutationRegistry(includeDefaults)\<close>.\<close>

definition MutationRegistry :: "viem \<Rightarrow> bool \<Rightarrow> jsval registry" where
  "MutationRegistry lib includeDefaults =
     (if includeDefaults then registerDefaults lib Map.empty else Map.empty)"

definition createDefaultRegistry :: "viem \<Rightarrow> jsval registry" where
  "createDefaultRegistry lib = MutationRegistry lib True"

text \<open>The type descriptors of the eight built-in operators.\<close>

definition builtin_types :: "viem \<Rightarrow> jsval base_type list" where
  "builtin_types lib =
     [TAddress lib, TBlockTag, TBlockNumber, THex32 lib,
      BooleanType, NumberType, StringType, ArrayType]"

section \<open>Mutation test runner\<close>

record 'a mutation_result =
  "value" :: 'a
  caught :: bool
  error :: "'a thrown option"

record test_summary =
  total :: nat
  caught_count :: nat
  uncaught :: nat
  errors :: nat

record 'a mutation_test_result =
  originalValue :: 'a
  mutations :: "'a mutation_result list"
  summary :: test_summary

record options =
  timeout :: "int option"
  verbose :: "bool option"

text \<open>
  \<open>MutationTestOptions\<close>. The timeout is a whole number of milliseconds.
  What one call of the validator does: it returns a boolean or throws at once, or it
  returns a promise that is fulfilled or rejected after a number of milliseconds, or one
  that never settles. The validator may have effects of its own, so it takes and returns a
  state.
\<close>

datatype 'a behaviour =
    Returns bool
  | Throws "'a thrown"
  | Resolves nat bool
  | Rejects nat "'a thrown"
  | Pending

type_synonym ('a, 's) validator = "'a \<Rightarrow> 's \<Rightarrow> 'a behaviour \<times> 's"

text \<open>\<open>options.timeout || 5000\<close>: an absent value and the falsy \<open>0\<close> give the default.\<close>

definition effective_timeout :: "options \<Rightarrow> int" where
  "effective_timeout opts =
     (case timeout opts of
        None \<Rightarrow> 5000
      | Some t \<Rightarrow> if t = 0 then 5000 else t)"

text \<open>
  The delay of the timer that \<open>setTimeout\<close> starts: the host sets a delay below 1 or above
  \<open>2^31 - 1\<close> to 1.
\<close>

definition setTimeout_delay :: "int \<Rightarrow> int" where
  "setTimeout_delay ms = (if ms < 1 \<or> 2147483647 < ms then 1 else ms)"

text \<open>
  \<open>await Promise.race([validator(mutation), timer])\<close> inside the \<open>try\<close>: \<open>Inr\<close> is the
  value the \<open>await\<close> yields and \<open>Inl\<close> what the \<open>catch\<close> receives. A plain boolean and a
  synchronous throw never wait for the timer. Of a promise and the timer the first to
  settle wins; on a tie it is the promise, which was created first.
\<close>

definition race :: "'a behaviour \<Rightarrow> int \<Rightarrow> 'a thrown + bool" where
  "race b ms =
     (case b of
        Returns r \<Rightarrow> Inr r
      | Throws e \<Rightarrow> Inl e
      | Resolves d r \<Rightarrow> if int d \<le> setTimeout_delay ms then Inr r else Inl (Error ''Timeout'')
      | Rejects d e \<Rightarrow> if int d \<le> setTimeout_delay ms then Inl e else Inl (Error ''Timeout'')
      | Pending \<Rightarrow> Inl (Error ''Timeout''))"

text \<open>The loop of \<open>test\<close> over the mutations, appending to \<open>results\<close>.\<close>

fun test_loop ::
  "('a, 's) validator \<Rightarrow> options \<Rightarrow> 'a list \<Rightarrow> 'a mutation_result list \<Rightarrow> 's
     \<Rightarrow> 'a mutation_result list \<times> 's" where
  "test_loop validator opts [] results s = (results, s)"
| "test_loop validator opts (mutation # rest) results s =
     (case validator mutation s of
        (b, s') \<Rightarrow>
          (case race b (effective_timeout opts) of
             Inr ok \<Rightarrow>
               test_loop validator opts rest
                 (results @ [\<lparr>value = mutation, caught = \<not> ok, error = None\<rparr>]) s'
           | Inl err \<Rightarrow>
               test_loop validator opts rest
                 (results @ [\<lparr>value = mutation, caught = True, error = Some err\<rparr>]) s'))"

definition test ::
  "'a registry \<Rightarrow> 'a \<Rightarrow> 'a base_type \<Rightarrow> ('a, 's) validator \<Rightarrow> options \<Rightarrow> 's
     \<Rightarrow> ('a thrown + 'a mutation_test_result) \<times> 's" where
  "test registry v ty validator opts s =
     (case registry_mutate registry v ty of
        Inl e \<Rightarrow> (Inl e, s)
      | Inr muts \<Rightarrow>
          (case test_loop validator opts muts [] s of
             (results, s') \<Rightarrow>
               (Inr \<lparr>originalValue = v,
                     mutations = results,
                     summary =
                       \<lparr>total = length results,
                        caught_count = length (filter (\<lambda>r. caught r) results),
                        uncaught = length (filter (\<lambda>r. \<not> caught r) results),
                        errors = length (filter (\<lambda>r. case error r of Some e \<Rightarrow> truthy e
                                                                    | None \<Rightarrow> False) results)\<rparr>\<rparr>,
                s')))"

text \<open>The loop of \<open>testWithOperator\<close>, written out a second time as in the source.\<close>

fun testWithOperator_loop ::
  "('a, 's) validator \<Rightarrow> options \<Rightarrow> 'a list \<Rightarrow> 'a mutation_result list \<Rightarrow> 's
     \<Rightarrow> 'a mutation_result list \<times> 's" where
  "testWithOperator_loop validator opts [] results s = (results, s)"
| "testWithOperator_loop validator opts (mutation # rest) results s =
     (case validator mutation s of
        (b, s') \<Rightarrow>
          (case race b (effective_timeout opts) of
             Inr ok \<Rightarrow>
               testWithOperator_loop validator opts rest
                 (results @ [\<lparr>value = mutation, caught = \<not> ok, error = None\<rparr>]) s'
           | Inl err \<Rightarrow>
               testWithOperator_loop validator opts rest
                 (results @ [\<lparr>value = mutation, caught = True, error = Some err\<rparr>]) s'))"

definition testWithOperator ::
  "'a \<Rightarrow> 'a operator \<Rightarrow> ('a, 's) validator \<Rightarrow> options \<Rightarrow> 's
     \<Rightarrow> ('a thrown + 'a mutation_test_result) \<times> 's" where
  "testWithOperator v op validator opts s =
     (if \<not> isApplicable op v then (Inl (OperatorNotApplicable (operator_name op) v), s)
      else
        (case mutate op v of
           Inl e \<Rightarrow> (Inl e, s)
         | Inr muts \<Rightarrow>
             (case testWithOperator_loop validator opts muts [] s of
                (results, s') \<Rightarrow>
                  (Inr \<lparr>originalValue = v,
                        mutations = results,
                        summary =
                          \<lparr>total = length results,
                           caught_count = length (filter (\<lambda>r. caught r) results),
                           uncaught = length (filter (\<lambda>r. \<not> caught r) results),
                           errors = length (filter (\<lambda>r. case error r of Some e \<Rightarrow> truthy e
                                                                       | None \<Rightarrow> False) results)\<rparr>\<rparr>,
                   s'))))"

record ('a, 's) test_entry =
  test_name :: string
  test_value :: 'a
  test_type :: "'a base_type"
  test_validator :: "('a, 's) validator"

text \<open>
  \<open>obj[key] = v\<close> on an object created by \<open>{}\<close>, seen as the map of its own properties:
  the key is added or overwritten, except for \<open>__proto__\<close>, where the assignment sets the
  prototype and adds no property.
\<close>

definition set_property :: "(string \<rightharpoonup> 'v) \<Rightarrow> string \<Rightarrow> 'v \<Rightarrow> (string \<rightharpoonup> 'v)" where
  "set_property obj key v = (if key = ''__proto__'' then obj else obj(key \<mapsto> v))"

text \<open>
  The loop of \<open>testAll\<close>: each entry is awaited in turn and stored under its name in the
  \<open>results\<close> object; an entry whose \<open>test\<close> throws ends the loop with that error.
\<close>

fun testAll_loop ::
  "'a registry \<Rightarrow> options \<Rightarrow> ('a, 's) test_entry list
     \<Rightarrow> (string \<rightharpoonup> 'a mutation_test_result) \<Rightarrow> 's
     \<Rightarrow> ('a thrown + (string \<rightharpoonup> 'a mutation_test_result)) \<times> 's" where
  "testAll_loop registry opts [] results s = (Inr results, s)"
| "testAll_loop registry opts (t # rest) results s =
     (case test registry (test_value t) (test_type t) (test_validator t) opts s of
        (Inl e, s') \<Rightarrow> (Inl e, s')
      | (Inr r, s') \<Rightarrow>
          testAll_loop registry opts rest (set_property results (test_name t) r) s')"

definition testAll ::
  "'a registry \<Rightarrow> ('a, 's) test_entry list \<Rightarrow> options
     \<Rightarrow> 's \<Rightarrow> ('a thrown + (string \<rightharpoonup> 'a mutation_test_result)) \<times> 's" where
  "testAll registry tests opts s = testAll_loop registry opts tests Map.empty s"

section \<open>Notions used to state the properties\<close>


text \<open>The record that one pass of the loop body appends, given what the \<open>await\<close> produced.\<close>

definition outcome_result :: "'a \<Rightarrow> 'a thrown + bool \<Rightarrow> 'a mutation_result" where
  "outcome_result m x =
     (case x of
        Inr ok \<Rightarrow> \<lparr>value = m, caught = \<not> ok, error = None\<rparr>
      | Inl err \<Rightarrow> \<lparr>value = m, caught = True, error = Some err\<rparr>)"


section \<open>Sample inputs\<close>

text \<open>A stand-in for the external library that checks the textual format only.\<close>

definition format_viem :: viem where
  "format_viem =
     \<lparr>isAddress = (\<lambda>s. length s = 42 \<and> take 2 s = ''0x'' \<and>
                        set (drop 2 s) \<subseteq> set ''0123456789abcdefABCDEF''),
      isHex = (\<lambda>s. take 2 s = ''0x'' \<and> set (drop 2 s) \<subseteq> set ''0123456789abcdefABCDEF'')\<rparr>"

text \<open>A validator showing every behaviour; its state counts the calls.\<close>

definition sample_validator :: "(jsval, nat) validator" where
  "sample_validator v calls =
     (if v = JNumber 0 then Returns False
      else if v = JNumber 43 then Returns True
      else if v = JNumber 41 then Throws (Error ''rejected'')
      else if v = JNumber (- 42) then Resolves 6000 True
      else if v = JNumber 84 then Rejects 10 FalsyValue
      else if v = JNumber 21 then Resolves 100 True
      else Pending,
      calls + 1)"

text \<open>A validator that throws \<open>undefined\<close> on every candidate.\<close>

definition undefined_thrower :: "(jsval, nat) validator" where
  "undefined_thrower v calls = (Throws FalsyValue, calls + 1)"

definition default_options :: options where
  "default_options = \<lparr>timeout = None, verbose = None\<rparr>"

text \<open>Entries for \<open>testAll\<close>.\<close>

definition number_entry :: "(jsval, nat) test_entry" where
  "number_entry = \<lparr>test_name = ''number'', test_value = JNumber 42, test_type = NumberType,
       test_validator = sample_validator\<rparr>"

definition flag_entry :: "(jsval, nat) test_entry" where
  "flag_entry = \<lparr>test_name = ''flag'', test_value = JBool True, test_type = BooleanType,
       test_validator = sample_validator\<rparr>"

text \<open>
  An operator supplied by a caller whose \<open>mutate\<close> throws, registered on top of the
  defaults, and a batch entry of its type.
\<close>

definition failing_operator :: "jsval operator" where
  "failing_operator =
     \<lparr>operator_name = ''FailingMutator'',
      type = \<lparr>name = ''Custom'', isValid = (\<lambda>v. True)\<rparr>,
      isApplicable = (\<lambda>v. True),
      mutate = (\<lambda>v. Inl (Error ''mutate failed''))\<rparr>"

definition failing_registry :: "jsval registry" where
  "failing_registry = register failing_operator (createDefaultRegistry format_viem)"

definition custom_entry :: "(jsval, nat) test_entry" where
  "custom_entry = \<lparr>test_name = ''custom'', test_value = JNumber 1,
       test_type = type failing_operator, test_validator = sample_validator\<rparr>"

section \<open>Unfolding and evaluation\<close>

lemmas registry_defs = createDefaultRegistry_def MutationRegistry_def registerDefaults_def
  register_def getOperator_def registry_mutate_def
  AddressMutator_def BlockTagMutator_def BlockNumberMutator_def HashMutator_def
  BooleanMutator_def NumberMutator_def StringMutator_def ArrayMutator_def
  TAddress_def TBlockTag_def TBlockNumber_def THex32_def BooleanType_def NumberType_def
  StringType_def ArrayType_def

lemmas runner_defs = test_def testWithOperator_def testAll_def race_def effective_timeout_def
  setTimeout_delay_def default_options_def sample_validator_def set_property_def

lemmas fixture_defs = number_entry_def flag_entry_def custom_entry_def failing_operator_def
  failing_registry_def

lemma default_lookup:
  "createDefaultRegistry lib ''Address'' = Some (AddressMutator lib)"
  "createDefaultRegistry lib ''BlockTag'' = Some BlockTagMutator"
  "createDefaultRegistry lib ''BlockNumber'' = Some BlockNumberMutator"
  "createDefaultRegistry lib ''Hex32'' = Some (HashMutator lib)"
  "createDefaultRegistry lib ''Boolean'' = Some BooleanMutator"
  "createDefaultRegistry lib ''Number'' = Some NumberMutator"
  "createDefaultRegistry lib ''String'' = Some StringMutator"
  "createDefaultRegistry lib ''Array'' = Some ArrayMutator"
  by (simp_all add: registry_defs)

section \<open>The loop of the runner\<close>

lemma test_loop_acc:
  "test_loop validator opts muts acc s =
     (acc @ fst (test_loop validator opts muts [] s), snd (test_loop validator opts muts [] s))"
proof (induction muts arbitrary: acc s)
  case Nil
  show ?case by simp
next
  case (Cons m ms)
  obtain b s1 where v: "validator m s = (b, s1)" by (cases "validator m s")
  show ?case
  proof (cases "race b (effective_timeout opts)")
    case (Inl e)
    show ?thesis
      using v Inl Cons.IH [of "acc @ [\<lparr>value = m, caught = True, error = Some e\<rparr>]" s1]
        Cons.IH [of "[\<lparr>value = m, caught = True, error = Some e\<rparr>]" s1]
      by simp
  next
    case (Inr ok)
    show ?thesis
      using v Inr Cons.IH [of "acc @ [\<lparr>value = m, caught = \<not> ok, error = None\<rparr>]" s1]
        Cons.IH [of "[\<lparr>value = m, caught = \<not> ok, error = None\<rparr>]" s1]
      by simp
  qed
qed

lemma testWithOperator_loop_eq:
  "testWithOperator_loop validator opts muts acc s = test_loop validator opts muts acc s"
  by (induction muts arbitrary: acc s) (auto split: prod.splits sum.splits)

lemma test_loop_Cons:
  "test_loop validator opts (m # ms) [] s =
     (outcome_result m (race (fst (validator m s)) (effective_timeout opts))
        # fst (test_loop validator opts ms [] (snd (validator m s))),
      snd (test_loop validator opts ms [] (snd (validator m s))))"
proof -
  obtain b s1 where v: "validator m s = (b, s1)" by (cases "validator m s")
  define r where "r = outcome_result m (race b (effective_timeout opts))"
  have "test_loop validator opts (m # ms) [] s = test_loop validator opts ms [r] s1"
    using v by (simp add: r_def outcome_result_def split: sum.splits)
  also have "\<dots> = ([r] @ fst (test_loop validator opts ms [] s1),
                     snd (test_loop validator opts ms [] s1))"
    by (rule test_loop_acc)
  finally show ?thesis using v by (simp add: r_def)
qed




lemma outcome_result_caught: "error (outcome_result m x) \<noteq> None \<Longrightarrow> caught (outcome_result m x)"
  by (cases x) (simp_all add: outcome_result_def)

lemma test_loop_error_caught:
  "r \<in> set (fst (test_loop validator opts muts [] s)) \<Longrightarrow> error r \<noteq> None \<Longrightarrow> caught r"
proof (induction muts arbitrary: s)
  case Nil
  then show ?case by simp
next
  case (Cons m ms)
  then show ?case
    by (auto simp: test_loop_Cons outcome_result_caught simp del: test_loop.simps(2))
qed

lemma length_filter_mono:
  "(\<And>x. x \<in> set xs \<Longrightarrow> P x \<Longrightarrow> Q x) \<Longrightarrow> length (filter P xs) \<le> length (filter Q xs)"
  by (induction xs) auto

text \<open>What \<open>test\<close> and \<open>testWithOperator\<close> return, in terms of the loop.\<close>

lemma test_result_shape:
  assumes "fst (test registry seed ty validator opts s) = Inr res"
  shows "\<exists>muts. registry_mutate registry seed ty = Inr muts \<and>
           mutations res = fst (test_loop validator opts muts [] s) \<and>
           summary res =
             \<lparr>total = length (mutations res),
              caught_count = length (filter (\<lambda>r. caught r) (mutations res)),
              uncaught = length (filter (\<lambda>r. \<not> caught r) (mutations res)),
              errors = length (filter (\<lambda>r. case error r of Some e \<Rightarrow> truthy e | None \<Rightarrow> False)
                                 (mutations res))\<rparr>"
  using assms by (auto simp: test_def split: sum.splits prod.splits)

lemma testWithOperator_result_shape:
  assumes "fst (testWithOperator seed op validator opts s) = Inr res"
  shows "\<exists>muts. mutate op seed = Inr muts \<and> isApplicable op seed \<and>
           mutations res = fst (test_loop validator opts muts [] s) \<and>
           summary res =
             \<lparr>total = length (mutations res),
              caught_count = length (filter (\<lambda>r. caught r) (mutations res)),
              uncaught = length (filter (\<lambda>r. \<not> caught r) (mutations res)),
              errors = length (filter (\<lambda>r. case error r of Some e \<Rightarrow> truthy e | None \<Rightarrow> False)
                                 (mutations res))\<rparr>"
  using assms
  by (auto simp: testWithOperator_def testWithOperator_loop_eq split: sum.splits prod.splits if_splits)

lemma test_throws:
  "registry_mutate registry v ty = Inl e \<Longrightarrow> test registry v ty validator opts s = (Inl e, s)"
  by (simp add: test_def)

lemma test_returns:
  "registry_mutate registry v ty = Inr muts \<Longrightarrow>
   \<exists>r s'. test registry v ty validator opts s = (Inr r, s')"
  by (simp add: test_def split: prod.splits)

section \<open>The loop of the batch\<close>

lemma testAll_loop_origin:
  "testAll_loop registry opts tests acc s = (Inr m, s') \<Longrightarrow> m n = Some res \<Longrightarrow>
   acc n = Some res \<or>
   (\<exists>t st. t \<in> set tests \<and>
            fst (test registry (test_value t) (test_type t) (test_validator t) opts st) = Inr res)"
proof (induction tests arbitrary: acc s)
  case Nil
  then show ?case by simp
next
  case (Cons t ts)
  obtain x s1 where tx: "test registry (test_value t) (test_type t) (test_validator t) opts s = (x, s1)"
    by (cases "test registry (test_value t) (test_type t) (test_validator t) opts s")
  show ?case
  proof (cases x)
    case (Inl e)
    with tx Cons.prems show ?thesis by simp
  next
    case (Inr r)
    with tx Cons.prems have
      "testAll_loop registry opts ts (set_property acc (test_name t) r) s1 = (Inr m, s')"
      by simp
    from Cons.IH [OF this Cons.prems(2)] show ?thesis
    proof
      assume "(set_property acc (test_name t) r) n = Some res"
      then have "acc n = Some res \<or> r = res"
        by (auto simp: set_property_def split: if_splits)
      then show ?thesis
      proof
        assume "acc n = Some res" then show ?thesis by simp
      next
        assume "r = res"
        with tx Inr have
          "fst (test registry (test_value t) (test_type t) (test_validator t) opts s) = Inr res"
          by simp
        then show ?thesis by auto
      qed
    next
      assume "\<exists>u st. u \<in> set ts \<and>
        fst (test registry (test_value u) (test_type u) (test_validator u) opts st) = Inr res"
      then show ?thesis by auto
    qed
  qed
qed

lemma testAll_loop_append:
  "testAll_loop registry opts (xs @ ys) acc s =
     (case testAll_loop registry opts xs acc s of
        (Inl e, s') \<Rightarrow> (Inl e, s')
      | (Inr m, s') \<Rightarrow> testAll_loop registry opts ys m s')"
  by (induction xs arbitrary: acc s) (auto split: prod.splits sum.splits)

lemma testAll_loop_no_throw:
  assumes "\<forall>u \<in> set ts. \<forall>e. registry_mutate registry (test_value u) (test_type u) \<noteq> Inl e"
  shows "\<exists>m s'. testAll_loop registry opts ts acc s = (Inr m, s') \<and>
           (\<forall>n. n \<notin> test_name ` set ts \<longrightarrow> m n = acc n)"
  using assms
proof (induction ts arbitrary: acc s)
  case Nil
  then show ?case by simp
next
  case (Cons t ts)
  from Cons.prems obtain muts where
    "registry_mutate registry (test_value t) (test_type t) = Inr muts"
    by (cases "registry_mutate registry (test_value t) (test_type t)") auto
  from test_returns [OF this, of "test_validator t" opts s] obtain r s1 where
    r: "test registry (test_value t) (test_type t) (test_validator t) opts s = (Inr r, s1)"
    by blast
  from Cons.prems have
    "\<forall>u \<in> set ts. \<forall>e. registry_mutate registry (test_value u) (test_type u) \<noteq> Inl e"
    by simp
  from Cons.IH [OF this, of "set_property acc (test_name t) r" s1] obtain m s' where
    m: "testAll_loop registry opts ts (set_property acc (test_name t) r) s1 = (Inr m, s')"
       "\<forall>n. n \<notin> test_name ` set ts \<longrightarrow> m n = (set_property acc (test_name t) r) n"
    by blast
  have "testAll_loop registry opts (t # ts) acc s = (Inr m, s')"
    using r m(1) by simp
  moreover have "\<forall>n. n \<notin> test_name ` set (t # ts) \<longrightarrow> m n = acc n"
    using m(2) by (auto simp: set_property_def)
  ultimately show ?case by blast
qed

section \<open>The built-in operators\<close>

lemma BlockTagMutator_mutate_nonempty: "BlockTagMutator_mutate blockTag \<noteq> []"
proof (cases "blockTag = ''latest''")
  case True
  then show ?thesis by (simp add: BlockTagMutator_mutate_def allTags_def)
next
  case False
  then show ?thesis by (simp add: BlockTagMutator_mutate_def allTags_def)
qed

lemma builtin_mutate_nonempty:
  "op \<in> {AddressMutator lib, BlockTagMutator, BlockNumberMutator, HashMutator lib,
          BooleanMutator, NumberMutator, StringMutator, ArrayMutator} \<Longrightarrow>
   isApplicable op v \<Longrightarrow> \<exists>ms. mutate op v = Inr ms \<and> ms \<noteq> []"
  by (cases v)
     (auto simp: AddressMutator_def BlockTagMutator_def BlockNumberMutator_def HashMutator_def
        BooleanMutator_def NumberMutator_def StringMutator_def ArrayMutator_def
        TAddress_def TBlockTag_def TBlockNumber_def THex32_def BooleanType_def NumberType_def
        StringType_def ArrayType_def BlockTagMutator_mutate_nonempty
        AddressMutator_mutate_def BlockNumberMutator_mutate_def HashMutator_mutate_def
        BooleanMutator_mutate_def NumberMutator_mutate_def StringMutator_mutate_def
        ArrayMutator_mutate_def)

section \<open>Classification of each mutation\<close>




section \<open>Summary counts\<close>

text \<open>
  Claim C2. For every result that \<open>test\<close> or \<open>testWithOperator\<close> returns, and every result in
  the mapping that \<open>testAll\<close> returns, the summary is computed from the list of per-mutation
  results alone: \<open>total\<close> is its length, \<open>caught\<close> and \<open>uncaught\<close> count the results with
  \<open>caught\<close> true and false, \<open>errors\<close> counts the results with a truthy error. Hence
  \<open>caught + uncaught = total\<close>, and \<open>errors \<le> caught\<close> because every result with an error is
  caught.
\<close>

theorem summary_is_fold_of_results:
  assumes "fst (test registry seed ty validator opts s) = Inr res \<or>
           fst (testWithOperator seed op validator opts s) = Inr res \<or>
           (\<exists>m n. fst (testAll registry tests opts s) = Inr m \<and> m n = Some res)"
  shows "summary res =
           \<lparr>total = length (mutations res),
            caught_count = length (filter (\<lambda>r. caught r) (mutations res)),
            uncaught = length (filter (\<lambda>r. \<not> caught r) (mutations res)),
            errors = length (filter (\<lambda>r. case error r of Some e \<Rightarrow> truthy e | None \<Rightarrow> False)
                               (mutations res))\<rparr> \<and>
         total (summary res) = length (mutations res) \<and>
         caught_count (summary res) + uncaught (summary res) = total (summary res) \<and>
         errors (summary res) \<le> caught_count (summary res)"
proof -
  let ?sum = "\<lparr>total = length (mutations res),
            caught_count = length (filter (\<lambda>r. caught r) (mutations res)),
            uncaught = length (filter (\<lambda>r. \<not> caught r) (mutations res)),
            errors = length (filter (\<lambda>r. case error r of Some e \<Rightarrow> truthy e | None \<Rightarrow> False)
                               (mutations res))\<rparr>"
  have from_test: "summary res' = \<lparr>total = length (mutations res'),
            caught_count = length (filter (\<lambda>r. caught r) (mutations res')),
            uncaught = length (filter (\<lambda>r. \<not> caught r) (mutations res')),
            errors = length (filter (\<lambda>r. case error r of Some e \<Rightarrow> truthy e | None \<Rightarrow> False)
                               (mutations res'))\<rparr> \<and>
          (\<forall>r \<in> set (mutations res'). error r \<noteq> None \<longrightarrow> caught r)"
    if "fst (test registry' seed' ty' validator' opts' st) = Inr res'"
    for registry' :: "'a registry" and seed' ty' and validator' :: "('a, 'b) validator"
      and opts' st res'
    using test_result_shape [OF that] test_loop_error_caught by fastforce
  have shape: "summary res = ?sum \<and> (\<forall>r \<in> set (mutations res). error r \<noteq> None \<longrightarrow> caught r)"
    using assms
  proof (elim disjE exE conjE)
    assume "fst (test registry seed ty validator opts s) = Inr res"
    then show ?thesis by (rule from_test)
  next
    assume "fst (testWithOperator seed op validator opts s) = Inr res"
    from testWithOperator_result_shape [OF this] test_loop_error_caught
    show ?thesis by fastforce
  next
    fix m n
    assume "fst (testAll registry tests opts s) = Inr m" and "m n = Some res"
    then have "\<exists>t st. t \<in> set tests \<and>
        fst (test registry (test_value t) (test_type t) (test_validator t) opts st) = Inr res"
      using testAll_loop_origin [of registry opts tests Map.empty s m _ n res]
      by (cases "testAll_loop registry opts tests Map.empty s") (simp add: testAll_def)
    then show ?thesis using from_test by blast
  qed
  have le: "length (filter (\<lambda>r. case error r of Some e \<Rightarrow> truthy e | None \<Rightarrow> False) (mutations res))
              \<le> length (filter (\<lambda>r. caught r) (mutations res))"
    using shape by (intro length_filter_mono) (auto split: option.splits)
  have sum: "length (filter (\<lambda>r. caught r) (mutations res)) +
             length (filter (\<lambda>r. \<not> caught r) (mutations res)) = length (mutations res)"
    by (rule sum_length_filter_compl)
  show ?thesis using shape le sum by simp
qed

theorem summary_is_fold_of_results_witness:
  "(\<exists>res. fst (test (createDefaultRegistry format_viem) (JNumber 42) NumberType
               sample_validator default_options (0::nat)) = Inr res \<and>
       summary res = \<lparr>total = 8, caught_count = 6, uncaught = 2, errors = 4\<rparr> \<and>
       total (summary res) = length (mutations res) \<and>
       caught_count (summary res) + uncaught (summary res) = total (summary res) \<and>
       errors (summary res) \<le> caught_count (summary res)) \<and>
   (\<exists>res. fst (testWithOperator (JBool True) BooleanMutator
               sample_validator default_options (0::nat)) = Inr res \<and>
       total (summary res) = length (mutations res) \<and>
       caught_count (summary res) + uncaught (summary res) = total (summary res) \<and>
       errors (summary res) \<le> caught_count (summary res)) \<and>
   (\<exists>m res. fst (testAll (createDefaultRegistry format_viem) [number_entry, flag_entry] default_options
                 (0::nat)) = Inr m \<and> m ''flag'' = Some res \<and>
       total (summary res) = length (mutations res) \<and>
       caught_count (summary res) + uncaught (summary res) = total (summary res) \<and>
       errors (summary res) \<le> caught_count (summary res))"
proof -
  have a: "\<exists>res. fst (test (createDefaultRegistry format_viem) (JNumber 42) NumberType
               sample_validator default_options (0::nat)) = Inr res \<and>
             length (mutations res) = 8 \<and>
             length (filter (\<lambda>r. caught r) (mutations res)) = 6 \<and>
             length (filter (\<lambda>r. \<not> caught r) (mutations res)) = 2 \<and>
             length (filter (\<lambda>r. case error r of Some e \<Rightarrow> truthy e | None \<Rightarrow> False)
                       (mutations res)) = 4"
    by (simp add: registry_defs runner_defs NumberMutator_mutate_def MAX_SAFE_INTEGER_def
          MIN_SAFE_INTEGER_def)
  have b: "\<exists>res. fst (testWithOperator (JBool True) BooleanMutator
               sample_validator default_options (0::nat)) = Inr res"
    by (simp add: registry_defs runner_defs BooleanMutator_mutate_def)
  have c: "\<exists>m res. fst (testAll (createDefaultRegistry format_viem) [number_entry, flag_entry]
               default_options (0::nat)) = Inr m \<and> m ''flag'' = Some res"
    by (simp add: fixture_defs registry_defs runner_defs NumberMutator_mutate_def
          MAX_SAFE_INTEGER_def MIN_SAFE_INTEGER_def BooleanMutator_mutate_def)
  from a obtain r1 where r1:
    "fst (test (createDefaultRegistry format_viem) (JNumber 42) NumberType
               sample_validator default_options (0::nat)) = Inr r1"
    "length (mutations r1) = 8"
    "length (filter (\<lambda>r. caught r) (mutations r1)) = 6"
    "length (filter (\<lambda>r. \<not> caught r) (mutations r1)) = 2"
    "length (filter (\<lambda>r. case error r of Some e \<Rightarrow> truthy e | None \<Rightarrow> False)
                       (mutations r1)) = 4"
    by blast
  from b obtain r2 where r2:
    "fst (testWithOperator (JBool True) BooleanMutator
               sample_validator default_options (0::nat)) = Inr r2"
    by blast
  from c obtain m r3 where r3:
    "fst (testAll (createDefaultRegistry format_viem) [number_entry, flag_entry]
               default_options (0::nat)) = Inr m" "m ''flag'' = Some r3"
    by blast
  have "\<exists>m n. fst (testAll (createDefaultRegistry format_viem) [number_entry, flag_entry]
               default_options (0::nat)) = Inr m \<and> m n = Some r3"
    using r3 by blast
  note w1 = summary_is_fold_of_results [OF disjI1, OF r1(1)]
    and w2 = summary_is_fold_of_results [OF disjI2, OF disjI1, OF r2]
    and w3 = summary_is_fold_of_results [OF disjI2, OF disjI2, OF this]
  have "summary r1 = \<lparr>total = 8, caught_count = 6, uncaught = 2, errors = 4\<rparr>"
    using w1 r1 by simp
  with w1 w2 w3 r1 r2 r3 show ?thesis by blast
qed

section \<open>Dispatch in the registry\<close>

text \<open>
  Claim C3. \<open>MutationRegistry.mutate(v, d)\<close> returns \<open>operator.mutate(v)\<close> when an operator is
  registered under \<open>d.name\<close> and \<open>operator.isApplicable(v)\<close> holds; when no operator is
  registered under that name, or the registered one is not applicable, it returns the list
  \<open>[v]\<close> and raises no error.
\<close>

theorem registry_mutate_dispatch:
  "(registry (name d) = Some op \<and> isApplicable op v \<longrightarrow>
      registry_mutate registry v d = mutate op v) \<and>
   (registry (name d) = None \<or> (registry (name d) = Some op \<and> \<not> isApplicable op v) \<longrightarrow>
      registry_mutate registry v d = Inr [v])"
  by (auto simp: registry_mutate_def getOperator_def)

theorem registry_mutate_dispatch_witness:
  "registry_mutate (createDefaultRegistry format_viem) (JBool True) BooleanType
     = mutate BooleanMutator (JBool True) \<and>
   mutate BooleanMutator (JBool True) = Inr [JBool False] \<and>
   registry_mutate (createDefaultRegistry format_viem) (JNumber 7) BooleanType
     = Inr [JNumber 7] \<and>
   registry_mutate (createDefaultRegistry format_viem) (JNumber 7)
       \<lparr>name = ''Unknown'', isValid = (\<lambda>v. True)\<rparr>
     = Inr [JNumber 7]"
proof -
  have a: "createDefaultRegistry format_viem (name BooleanType) = Some BooleanMutator"
    by (simp add: registry_defs)
  have b: "isApplicable BooleanMutator (JBool True)" "\<not> isApplicable BooleanMutator (JNumber 7)"
    by (simp_all add: registry_defs)
  have c: "createDefaultRegistry format_viem (name \<lparr>name = ''Unknown'', isValid = (\<lambda>v. True)\<rparr>)
             = None"
    by (simp add: registry_defs)
  have d: "mutate BooleanMutator (JBool True) = Inr [JBool False]"
    by (simp add: BooleanMutator_def BooleanMutator_mutate_def)
  show ?thesis
    using registry_mutate_dispatch
        [of "createDefaultRegistry format_viem" BooleanType BooleanMutator "JBool True"]
      registry_mutate_dispatch
        [of "createDefaultRegistry format_viem" BooleanType BooleanMutator "JNumber 7"]
      registry_mutate_dispatch
        [of "createDefaultRegistry format_viem" "\<lparr>name = ''Unknown'', isValid = (\<lambda>v. True)\<rparr>"
            BooleanMutator "JNumber 7"]
      a b c d
    by simp
qed

section \<open>A batch of tests\<close>

text \<open>
  Claim C4, as amended. \<open>testAll\<close> runs its entries in order. Whatever the validators do,
  as long as the setup of no entry throws, every entry is executed, in the state the
  entries before it have left, and is reported in the returned mapping under its name,
  unless a later entry has the same name or the name is \<open>__proto__\<close>. When the setup of
  an entry throws (for example its registered operator's \<open>mutate\<close>), and none before it
  does, \<open>testAll\<close> throws that error to its caller and no later entry is executed.
\<close>

theorem testAll_entries_in_sequence:
  "((\<forall>u \<in> set (pre @ t # post).
        \<forall>e. registry_mutate registry (test_value u) (test_type u) \<noteq> Inl e) \<longrightarrow>
     (\<exists>m s' r s''.
        testAll registry (pre @ t # post) opts s = (Inr m, s') \<and>
        test registry (test_value t) (test_type t) (test_validator t) opts
            (snd (testAll registry pre opts s)) = (Inr r, s'') \<and>
        snd (testAll registry (pre @ [t]) opts s) = s'' \<and>
        (test_name t \<notin> test_name ` set post \<and> test_name t \<noteq> ''__proto__'' \<longrightarrow>
           m (test_name t) = Some r))) \<and>
   ((\<forall>u \<in> set pre. \<forall>e. registry_mutate registry (test_value u) (test_type u) \<noteq> Inl e) \<and>
     registry_mutate registry (test_value t) (test_type t) = Inl e \<longrightarrow>
     testAll registry (pre @ t # post) opts s = (Inl e, snd (testAll registry pre opts s)))"
proof (intro conjI impI)
  assume ok: "\<forall>u \<in> set (pre @ t # post).
        \<forall>e. registry_mutate registry (test_value u) (test_type u) \<noteq> Inl e"
  then have okpre: "\<forall>u \<in> set pre. \<forall>e. registry_mutate registry (test_value u) (test_type u) \<noteq> Inl e"
    and okpost: "\<forall>u \<in> set post. \<forall>e. registry_mutate registry (test_value u) (test_type u) \<noteq> Inl e"
    and okt: "\<forall>e. registry_mutate registry (test_value t) (test_type t) \<noteq> Inl e"
    by simp_all
  from testAll_loop_no_throw [OF okpre, of opts Map.empty s] obtain m1 s1 where
    pre: "testAll_loop registry opts pre Map.empty s = (Inr m1, s1)"
    by auto
  from okt obtain muts where
    "registry_mutate registry (test_value t) (test_type t) = Inr muts"
    by (cases "registry_mutate registry (test_value t) (test_type t)") auto
  from test_returns [OF this, of "test_validator t" opts s1] obtain r s2 where
    r: "test registry (test_value t) (test_type t) (test_validator t) opts s1 = (Inr r, s2)"
    by blast
  from testAll_loop_no_throw [OF okpost, of opts "set_property m1 (test_name t) r" s2]
  obtain m s' where
    post: "testAll_loop registry opts post (set_property m1 (test_name t) r) s2 = (Inr m, s')"
          "\<forall>n. n \<notin> test_name ` set post \<longrightarrow> m n = (set_property m1 (test_name t) r) n"
    by blast
  have whole: "testAll registry (pre @ t # post) opts s = (Inr m, s')"
    using pre r post(1) by (simp add: testAll_def testAll_loop_append)
  have at: "test registry (test_value t) (test_type t) (test_validator t) opts
            (snd (testAll registry pre opts s)) = (Inr r, s2)"
    using pre r by (simp add: testAll_def)
  have after: "snd (testAll registry (pre @ [t]) opts s) = s2"
    using pre r by (simp add: testAll_def testAll_loop_append)
  have last: "test_name t \<notin> test_name ` set post \<and> test_name t \<noteq> ''__proto__'' \<longrightarrow>
                m (test_name t) = Some r"
    using post(2) by (simp add: set_property_def)
  from whole at after last
  show "\<exists>m s' r s''.
        testAll registry (pre @ t # post) opts s = (Inr m, s') \<and>
        test registry (test_value t) (test_type t) (test_validator t) opts
            (snd (testAll registry pre opts s)) = (Inr r, s'') \<and>
        snd (testAll registry (pre @ [t]) opts s) = s'' \<and>
        (test_name t \<notin> test_name ` set post \<and> test_name t \<noteq> ''__proto__'' \<longrightarrow>
           m (test_name t) = Some r)"
    by blast
next
  assume a: "(\<forall>u \<in> set pre. \<forall>e. registry_mutate registry (test_value u) (test_type u) \<noteq> Inl e) \<and>
     registry_mutate registry (test_value t) (test_type t) = Inl e"
  then have okpre: "\<forall>u \<in> set pre. \<forall>e. registry_mutate registry (test_value u) (test_type u) \<noteq> Inl e"
    and thr: "registry_mutate registry (test_value t) (test_type t) = Inl e"
    by simp_all
  from testAll_loop_no_throw [OF okpre, of opts Map.empty s] obtain m1 s1 where
    pre: "testAll_loop registry opts pre Map.empty s = (Inr m1, s1)"
    by auto
  show "testAll registry (pre @ t # post) opts s = (Inl e, snd (testAll registry pre opts s))"
    using pre test_throws [OF thr, of "test_validator t" opts s1]
    by (simp add: testAll_def testAll_loop_append)
qed

theorem testAll_entries_in_sequence_witness:
  "(\<exists>m s' r s''.
      testAll failing_registry [number_entry, flag_entry] default_options (0::nat) = (Inr m, s') \<and>
      test failing_registry (JBool True) BooleanType sample_validator default_options
          (snd (testAll failing_registry [number_entry] default_options (0::nat))) = (Inr r, s'') \<and>
      m ''flag'' = Some r) \<and>
   testAll failing_registry [number_entry, custom_entry, flag_entry] default_options (0::nat)
     = (Inl (Error ''mutate failed''), 8)"
proof -
  have ok: "\<forall>u \<in> set ([number_entry] @ flag_entry # []).
        \<forall>e. registry_mutate failing_registry (test_value u) (test_type u) \<noteq> Inl e"
    by (simp add: fixture_defs registry_defs)
  have okpre: "\<forall>u \<in> set [number_entry].
        \<forall>e. registry_mutate failing_registry (test_value u) (test_type u) \<noteq> Inl e"
    by (simp add: fixture_defs registry_defs)
  have thr: "registry_mutate failing_registry (test_value custom_entry) (test_type custom_entry)
               = Inl (Error ''mutate failed'')"
    by (simp add: fixture_defs registry_defs)
  have st: "snd (testAll failing_registry [number_entry] default_options (0::nat)) = 8"
    by (simp add: fixture_defs registry_defs runner_defs NumberMutator_mutate_def
          MAX_SAFE_INTEGER_def MIN_SAFE_INTEGER_def)
  note a = testAll_entries_in_sequence
    [where registry = failing_registry and pre = "[number_entry]" and t = flag_entry
       and post = "[]" and opts = default_options and s = "0::nat"
       and e = "Error ''mutate failed''", THEN conjunct1, THEN mp, OF ok]
  note b = testAll_entries_in_sequence
    [where registry = failing_registry and pre = "[number_entry]" and t = custom_entry
       and post = "[flag_entry]" and opts = default_options and s = "0::nat"
       and e = "Error ''mutate failed''", THEN conjunct2, THEN mp, OF conjI [OF okpre thr]]
  have names: "test_name flag_entry = ''flag''"
    "test_value flag_entry = JBool True" "test_type flag_entry = BooleanType"
    "test_validator flag_entry = sample_validator"
    by (simp_all add: fixture_defs)
  from a b show ?thesis
    unfolding st by (simp add: names) blast
qed

text \<open>
  The claim as stated fails: the first entry's operator throws, the batch ends with that error,
  and the validator of the second entry, which alone makes eight calls, is never called.
\<close>

theorem testAll_independence_counterexample:
  "fst (testAll failing_registry [custom_entry, number_entry] default_options (0::nat))
     = Inl (Error ''mutate failed'') \<and>
   snd (testAll failing_registry [custom_entry, number_entry] default_options (0::nat)) = 0 \<and>
   snd (testAll failing_registry [number_entry] default_options (0::nat)) = 8"
  by (simp add: fixture_defs registry_defs runner_defs NumberMutator_mutate_def
        MAX_SAFE_INTEGER_def MIN_SAFE_INTEGER_def)

section \<open>Exceptions that reach the caller\<close>

text \<open>
  Claim C5, as amended. \<open>testWithOperator\<close> throws to its caller, before the validator is
  called on any mutation, whenever \<open>operator.isApplicable(seed)\<close> is false. This is not the
  only exception that \<open>test\<close> and \<open>testWithOperator\<close> let through: an error thrown by the
  operator's own \<open>mutate\<close> on the seed reaches the caller too, again before any call of the
  validator. Nothing the validator does makes them throw: once the operator has returned
  its list of mutations, the call returns a result.
\<close>

theorem surfaced_exceptions:
  "(\<not> isApplicable op seed \<longrightarrow>
      testWithOperator seed op validator opts s
        = (Inl (OperatorNotApplicable (operator_name op) seed), s)) \<and>
   (isApplicable op seed \<and> mutate op seed = Inl e \<longrightarrow>
      testWithOperator seed op validator opts s = (Inl e, s)) \<and>
   (registry (name ty) = Some op \<and> isApplicable op seed \<and> mutate op seed = Inl e \<longrightarrow>
      test registry seed ty validator opts s = (Inl e, s)) \<and>
   (isApplicable op seed \<and> mutate op seed = Inr muts \<longrightarrow>
      (\<exists>res s'. testWithOperator seed op validator opts s = (Inr res, s'))) \<and>
   (registry_mutate registry seed ty = Inr muts \<longrightarrow>
      (\<exists>res s'. test registry seed ty validator opts s = (Inr res, s')))"
proof (intro conjI)
  show "\<not> isApplicable op seed \<longrightarrow>
      testWithOperator seed op validator opts s
        = (Inl (OperatorNotApplicable (operator_name op) seed), s)"
    by (simp add: testWithOperator_def)
  show "isApplicable op seed \<and> mutate op seed = Inl e \<longrightarrow>
      testWithOperator seed op validator opts s = (Inl e, s)"
    by (simp add: testWithOperator_def)
  show "registry (name ty) = Some op \<and> isApplicable op seed \<and> mutate op seed = Inl e \<longrightarrow>
      test registry seed ty validator opts s = (Inl e, s)"
    by (simp add: test_def registry_mutate_def getOperator_def)
  show "isApplicable op seed \<and> mutate op seed = Inr muts \<longrightarrow>
      (\<exists>res s'. testWithOperator seed op validator opts s = (Inr res, s'))"
    by (simp add: testWithOperator_def split: prod.splits)
  show "registry_mutate registry seed ty = Inr muts \<longrightarrow>
      (\<exists>res s'. test registry seed ty validator opts s = (Inr res, s'))"
    using test_returns [of registry seed ty muts validator opts s] by blast
qed

theorem surfaced_exceptions_witness:
  "\<not> isApplicable BooleanMutator (JNumber 42) \<and>
   testWithOperator (JNumber 42) BooleanMutator sample_validator default_options (0::nat)
     = (Inl (OperatorNotApplicable ''BooleanMutator'' (JNumber 42)), 0) \<and>
   testWithOperator (JNumber 1) failing_operator undefined_thrower default_options (0::nat)
     = (Inl (Error ''mutate failed''), 0) \<and>
   test failing_registry (JNumber 1) (type failing_operator) undefined_thrower
       default_options (0::nat)
     = (Inl (Error ''mutate failed''), 0) \<and>
   (\<exists>res s'. testWithOperator (JBool True) BooleanMutator undefined_thrower default_options
                (0::nat) = (Inr res, s')) \<and>
   (\<exists>res s'. test failing_registry (JBool True) BooleanType undefined_thrower default_options
                (0::nat) = (Inr res, s'))"
proof -
  have a: "\<not> isApplicable BooleanMutator (JNumber 42)"
    by (simp add: registry_defs)
  have b: "failing_registry (name (type failing_operator)) = Some failing_operator \<and>
           isApplicable failing_operator (JNumber 1) \<and>
           mutate failing_operator (JNumber 1) = Inl (Error ''mutate failed'')"
    by (simp add: fixture_defs registry_defs)
  have c: "isApplicable BooleanMutator (JBool True) \<and>
           mutate BooleanMutator (JBool True) = Inr [JBool False]"
    by (simp add: registry_defs BooleanMutator_mutate_def)
  have d: "registry_mutate failing_registry (JBool True) BooleanType = Inr [JBool False]"
    by (simp add: fixture_defs registry_defs BooleanMutator_mutate_def)
  have n: "operator_name BooleanMutator = ''BooleanMutator''"
    by (simp add: BooleanMutator_def)
  note w1 = surfaced_exceptions
    [where op = BooleanMutator and seed = "JNumber 42" and validator = sample_validator
       and opts = default_options and s = "0::nat" and registry = failing_registry
       and ty = BooleanType and e = "Error ''mutate failed''" and muts = "[JBool False]"]
  note w2 = surfaced_exceptions
    [where op = failing_operator and seed = "JNumber 1" and validator = undefined_thrower
       and opts = default_options and s = "0::nat" and registry = failing_registry
       and ty = "type failing_operator" and e = "Error ''mutate failed''"
       and muts = "[JBool False]"]
  note w3 = surfaced_exceptions
    [where op = BooleanMutator and seed = "JBool True" and validator = undefined_thrower
       and opts = default_options and s = "0::nat" and registry = failing_registry
       and ty = BooleanType and e = "Error ''mutate failed''" and muts = "[JBool False]"]
  from w1 a n have 1:
    "testWithOperator (JNumber 42) BooleanMutator sample_validator default_options (0::nat)
     = (Inl (OperatorNotApplicable ''BooleanMutator'' (JNumber 42)), 0)"
    by simp
  from w2 b have 2:
    "testWithOperator (JNumber 1) failing_operator undefined_thrower default_options (0::nat)
     = (Inl (Error ''mutate failed''), 0)"
    "test failing_registry (JNumber 1) (type failing_operator) undefined_thrower
       default_options (0::nat)
     = (Inl (Error ''mutate failed''), 0)"
    by blast+
  from w3 c d have 3:
    "\<exists>res s'. testWithOperator (JBool True) BooleanMutator undefined_thrower default_options
                (0::nat) = (Inr res, s')"
    "\<exists>res s'. test failing_registry (JBool True) BooleanType undefined_thrower default_options
                (0::nat) = (Inr res, s')"
    by blast+
  from a 1 2 3 show ?thesis by blast
qed

text \<open>
  The claim as stated fails: here the operator is applicable to the seed, and both calls throw.
\<close>

theorem only_exception_counterexample:
  "isApplicable failing_operator (JNumber 1) \<and>
   testWithOperator (JNumber 1) failing_operator sample_validator default_options (0::nat)
     = (Inl (Error ''mutate failed''), 0) \<and>
   test failing_registry (JNumber 1) (type failing_operator) sample_validator
       default_options (0::nat)
     = (Inl (Error ''mutate failed''), 0)"
  by (simp add: fixture_defs registry_defs runner_defs)

section \<open>The default registry never returns an empty list\<close>

text \<open>
  Claim C6. For the descriptor \<open>d\<close> of any of the eight built-in types and every seed \<open>v\<close>
  valid for it, \<open>mutate(v, d)\<close> of the default registry returns a list with at least one
  element; this includes the empty string and the empty array.
\<close>

theorem default_registry_mutate_nonempty:
  assumes "d \<in> set (builtin_types lib)" and "isValid d v"
  shows "\<exists>ms. registry_mutate (createDefaultRegistry lib) v d = Inr ms \<and> ms \<noteq> []"
proof -
  from assms(1) obtain op where op:
    "createDefaultRegistry lib (name d) = Some op"
    "op \<in> {AddressMutator lib, BlockTagMutator, BlockNumberMutator, HashMutator lib,
          BooleanMutator, NumberMutator, StringMutator, ArrayMutator}"
    by (auto simp: builtin_types_def default_lookup TAddress_def TBlockTag_def TBlockNumber_def
          THex32_def BooleanType_def NumberType_def StringType_def ArrayType_def)
  show ?thesis
  proof (cases "isApplicable op v")
    case True
    from builtin_mutate_nonempty [OF op(2) True] op(1) True show ?thesis
      by (simp add: registry_mutate_def getOperator_def)
  next
    case False
    with op(1) show ?thesis by (simp add: registry_mutate_def getOperator_def)
  qed
qed

theorem default_registry_mutate_nonempty_witness:
  "StringType \<in> set (builtin_types format_viem) \<and> isValid StringType (JString '''') \<and>
   registry_mutate (createDefaultRegistry format_viem) (JString '''') StringType
     = Inr [JString '''', JString ''X'', JString '''', JString '''', JString '''', JString ''''] \<and>
   ArrayType \<in> set (builtin_types format_viem) \<and> isValid ArrayType (JArray []) \<and>
   (\<exists>ms. registry_mutate (createDefaultRegistry format_viem) (JArray []) ArrayType = Inr ms \<and>
         ms \<noteq> [])"
proof -
  have a: "StringType \<in> set (builtin_types format_viem)" "isValid StringType (JString '''')"
    and b: "ArrayType \<in> set (builtin_types format_viem)" "isValid ArrayType (JArray [])"
    by (simp_all add: builtin_types_def StringType_def ArrayType_def)
  have c: "registry_mutate (createDefaultRegistry format_viem) (JString '''') StringType
     = Inr [JString '''', JString ''X'', JString '''', JString '''', JString '''', JString '''']"
    by (simp add: registry_defs StringMutator_mutate_def substring_def toUpperCase_def
          toLowerCase_def)
  from a b c default_registry_mutate_nonempty [OF b] default_registry_mutate_nonempty [OF a]
  show ?thesis by simp
qed

section \<open>Block tags and empty arrays\<close>

text \<open>
  Claim C7. For a seed among the five block tags, \<open>BlockTagMutator.mutate(seed)\<close> returns
  exactly the other four: as a set it is the five tags without the seed, the seed is not in
  it, and it has four distinct elements.
\<close>

theorem BlockTagMutator_other_four:
  assumes "blockTag \<in> set allTags"
  shows "set (BlockTagMutator_mutate blockTag) = set allTags - {blockTag} \<and>
         blockTag \<notin> set (BlockTagMutator_mutate blockTag) \<and>
         length (BlockTagMutator_mutate blockTag) = 4 \<and>
         distinct (BlockTagMutator_mutate blockTag) \<and>
         mutate BlockTagMutator (JString blockTag)
           = Inr (map JString (BlockTagMutator_mutate blockTag))"
  using assms
  by (auto simp: BlockTagMutator_mutate_def allTags_def BlockTagMutator_def)

theorem BlockTagMutator_other_four_witness:
  "''safe'' \<in> set allTags \<and>
   BlockTagMutator_mutate ''safe'' = [''latest'', ''earliest'', ''pending'', ''finalized''] \<and>
   set (BlockTagMutator_mutate ''safe'') = set allTags - {''safe''}"
  using BlockTagMutator_other_four [of "''safe''"]
  by (simp add: BlockTagMutator_mutate_def allTags_def)

text \<open>
  Claim C8. \<open>ArrayMutator.mutate([])\<close> is the one-element list holding the array \<open>[null]\<close>,
  so never the empty list; the same is what the default registry returns for the empty array.
\<close>

theorem ArrayMutator_empty_array:
  "ArrayMutator_mutate [] = [[JNull]] \<and>
   mutate ArrayMutator (JArray []) = Inr [JArray [JNull]] \<and>
   registry_mutate (createDefaultRegistry lib) (JArray []) ArrayType = Inr [JArray [JNull]]"
  by (simp add: ArrayMutator_mutate_def registry_defs)

section \<open>The two entry points agree\<close>

text \<open>
  Claim C9. If the operator \<open>op\<close> is registered under \<open>op.type.name\<close> and is applicable to the
  seed, then \<open>test(seed, op.type, validator, options)\<close> and
  \<open>testWithOperator(seed, op, validator, options)\<close>, started in the same state of the validator,
  have the same outcome: the same ordered results and summary, and the same final state.
\<close>

theorem test_agrees_with_testWithOperator:
  assumes "registry (name (type op)) = Some op" and "isApplicable op seed"
  shows "test registry seed (type op) validator opts s
           = testWithOperator seed op validator opts s"
  using assms
  by (simp add: test_def testWithOperator_def registry_mutate_def getOperator_def
        testWithOperator_loop_eq split: sum.splits)

theorem test_agrees_with_testWithOperator_witness:
  "createDefaultRegistry format_viem (name (type NumberMutator)) = Some NumberMutator \<and>
   isApplicable NumberMutator (JNumber 42) \<and>
   test (createDefaultRegistry format_viem) (JNumber 42) (type NumberMutator)
       sample_validator default_options (0::nat)
     = testWithOperator (JNumber 42) NumberMutator sample_validator default_options 0"
proof -
  have a: "createDefaultRegistry format_viem (name (type NumberMutator)) = Some NumberMutator"
    by (simp add: registry_defs)
  have b: "isApplicable NumberMutator (JNumber 42)"
    by (simp add: registry_defs)
  from a b test_agrees_with_testWithOperator
      [of "createDefaultRegistry format_viem" NumberMutator "JNumber 42"
          sample_validator default_options "0::nat"]
  show ?thesis by simp
qed

section \<open>The timeout option\<close>



end
